theory Spec2Isabelle
  imports Complex_Main "HOL-Library.Sublist"
begin

section \<open>RoSolve client: Python values, errors and the HTTP transport\<close>

text \<open>
  The values the client handles are the Python values a decoded JSON body can hold
  (\<open>resp.json()\<close>), which are also the values a caller can pass for \<open>proxy\<close>:
  \<open>None\<close>, booleans, numbers, strings, lists and dictionaries with string keys.
  A dictionary is an association list; the first binding of a key is its value.
  The code performs no arithmetic on numbers; a finite float is carried as the
  rational it denotes.
\<close>

datatype pyval =
    PNone
  | PBool bool
  | PInt int
  | PFloat rat
  | PStr string
  | PList "pyval list"
  | PDict "(string \<times> pyval) list"

text \<open>
  Modelled from the spec: the exception classes of \<open>rosolve/errors.py\<close>
  (\<open>RoSolveException\<close>, \<open>InvalidKey\<close>, \<open>TaskError\<close>, \<open>ProxyError\<close>), which
  \<open>client.py\<close> imports and which are not part of the sources at hand. The spec's error
  taxonomy has them as four kinds of their own, none of which is a transport failure
  (\<open>aiohttp.ClientError\<close>). The other constructors are the exceptions that the code
  lets through as they are: a transport failure, any other exception raised by a
  request, and Python's own \<open>KeyError\<close> (with the missing key) and \<open>TypeError\<close>.
\<close>

datatype error =
    ProxyError string
  | InvalidKey pyval
  | TaskError pyval
  | RoSolveException string
  | ClientError string
  | OtherError string
  | KeyError string
  | TypeError

text \<open>
  The three addresses the client uses, all under \<open>BASE_URL\<close>. The task identifier that
  the f-string interpolates into the result address is kept as the value it is.
\<close>

datatype url = GetBalanceUrl | CreateTaskUrl | TaskResultUrl pyval

text \<open>
  A request of the aiohttp session: \<open>session.get(url, params=..., proxy=...)\<close> and
  \<open>session.post(url, json=...)\<close>. A keyword the call leaves out has aiohttp's default
  (\<open>params\<close> empty, \<open>proxy\<close> \<open>None\<close>).
\<close>

datatype request =
    GET url "(string \<times> pyval) list" pyval
  | POST url pyval

text \<open>
  What one request gives, decoding of the body included (\<open>await resp.json()\<close>): the
  decoded body, an \<open>aiohttp.ClientError\<close> with its message \<open>str(e)\<close>, or another
  exception.
\<close>

datatype outcome = Body pyval | ClientErr string | OtherErr string

text \<open>
  The session and the network behind it are a deterministic machine over a state \<open>'s\<close>:
  a request in a state gives an outcome and the next state.
\<close>

type_synonym 's transport = "'s \<Rightarrow> request \<Rightarrow> outcome \<times> 's"

text \<open>What a call does that can be observed: its requests and its sleeps, in order.\<close>

datatype 'd event = Sleep 'd | Req request

subsection \<open>Python operations on values\<close>

text \<open>Truth value of a Python value (\<open>if proxy\<close>, \<open>session or ...\<close>).\<close>

fun truthy :: "pyval \<Rightarrow> bool" where
  "truthy PNone = False"
| "truthy (PBool b) = b"
| "truthy (PInt i) = (i \<noteq> 0)"
| "truthy (PFloat q) = (q \<noteq> 0)"
| "truthy (PStr s) = (s \<noteq> [])"
| "truthy (PList xs) = (xs \<noteq> [])"
| "truthy (PDict kvs) = (kvs \<noteq> [])"

text \<open>\<open>s.startswith(p)\<close>.\<close>

definition startswith :: "string \<Rightarrow> string \<Rightarrow> bool" where
  "startswith s p = prefix p s"

text \<open>\<open>p in s\<close> for two strings: \<open>p\<close> occurs in \<open>s\<close>.\<close>

fun occurs_in :: "string \<Rightarrow> string \<Rightarrow> bool" where
  "occurs_in p [] = (p = [])"
| "occurs_in p (c # cs) = (prefix p (c # cs) \<or> occurs_in p cs)"

text \<open>
  \<open>k in data\<close> for a string \<open>k\<close>: a key of a dictionary, an element of a list (only a
  string equals a string), a part of a string; \<open>TypeError\<close> for a value that is not a
  container.
\<close>

fun py_in :: "string \<Rightarrow> pyval \<Rightarrow> error + bool" where
  "py_in k (PDict kvs) = Inr (map_of kvs k \<noteq> None)"
| "py_in k (PList xs) = Inr (PStr k \<in> set xs)"
| "py_in k (PStr s) = Inr (occurs_in k s)"
| "py_in k PNone = Inl TypeError"
| "py_in k (PBool b) = Inl TypeError"
| "py_in k (PInt i) = Inl TypeError"
| "py_in k (PFloat q) = Inl TypeError"

text \<open>
  \<open>data[k]\<close> for a string \<open>k\<close>: the value of the key in a dictionary, \<open>KeyError\<close> when
  the key is missing, \<open>TypeError\<close> for every other value (a list and a string take
  integer indices only).
\<close>

fun subscript :: "pyval \<Rightarrow> string \<Rightarrow> error + pyval" where
  "subscript (PDict kvs) k = (case map_of kvs k of None \<Rightarrow> Inl (KeyError k) | Some v \<Rightarrow> Inr v)"
| "subscript PNone k = Inl TypeError"
| "subscript (PBool b) k = Inl TypeError"
| "subscript (PInt i) k = Inl TypeError"
| "subscript (PFloat q) k = Inl TypeError"
| "subscript (PStr s) k = Inl TypeError"
| "subscript (PList xs) k = Inl TypeError"

section \<open>The client\<close>

text \<open>
  The fields of \<open>Client\<close> that the calls read. The session (\<open>self._session\<close>) is the
  transport, passed to each call with its state.
\<close>

record client =
  api_key :: string
  proxy :: pyval

text \<open>\<open>Client._validate_proxy\<close>.\<close>

definition validate_proxy :: "pyval \<Rightarrow> error + pyval" where
  "validate_proxy p =
     (case p of
        PStr s \<Rightarrow>
          if \<not> list_ex (startswith s) [''http://'', ''https://'', ''socks5://'']
          then Inl (ProxyError ''Proxy must start with http://, https://, or socks5://'')
          else Inr p
      | _ \<Rightarrow> Inl (ProxyError ''Proxy must be a string''))"


text \<open>
  \<open>Client.get_balance\<close>: the result, the requests made and the transport's next state.
  The \<open>except\<close> clause takes \<open>aiohttp.ClientError\<close> only.
\<close>

definition get_balance ::
  "'s transport \<Rightarrow> client \<Rightarrow> 's \<Rightarrow> (error + pyval) \<times> request list \<times> 's" where
  "get_balance send self s =
     (let r = GET GetBalanceUrl [(''key'', PStr (api_key self))] (proxy self) in
      case send s r of
        (ClientErr m, s') \<Rightarrow> (Inl (RoSolveException (''Connection error: '' @ m)), [r], s')
      | (OtherErr m, s') \<Rightarrow> (Inl (OtherError m), [r], s')
      | (Body data, s') \<Rightarrow>
          (case py_in ''error'' data of
             Inl e \<Rightarrow> (Inl e, [r], s')
           | Inr True \<Rightarrow>
               (case subscript data ''error'' of
                  Inl e \<Rightarrow> (Inl e, [r], s')
                | Inr m \<Rightarrow> (Inl (InvalidKey m), [r], s'))
           | Inr False \<Rightarrow> (subscript data ''balance'', [r], s')))"

subsection \<open>solve_funcaptcha: the payload\<close>

text \<open>Line 117: the proxy of this call.\<close>

definition solving_proxy :: "client \<Rightarrow> pyval \<Rightarrow> error + pyval" where
  "solving_proxy self p = (if truthy p then validate_proxy p else Inr (proxy self))"

definition challenge_info :: "string \<Rightarrow> pyval" where
  "challenge_info blob = PDict
     [(''publicKey'', PStr ''476068BF-9607-4799-B53D-966BE98E2B81''),
      (''site'', PStr ''https://www.roblox.com/''),
      (''surl'', PStr ''https://arkoselabs.roblox.com''),
      (''capiMode'', PStr ''inline''),
      (''styleTheme'', PStr ''default''),
      (''languageEnabled'', PBool False),
      (''jsfEnabled'', PBool False),
      (''extraData'', PDict [(''blob'', PStr blob)]),
      (''ancestorOrigins'', PList [PStr ''https://www.roblox.com'', PStr ''https://www.roblox.com'']),
      (''treeIndex'', PList [PInt 1, PInt 0]),
      (''treeStructure'', PStr ''[[],[[]]]''),
      (''locationHref'', PStr ''https://www.roblox.com/arkose/iframe'')]"

text \<open>
  \<open>roblox_session.headers[k]\<close>: the headers of the caller's session are a lookup that
  gives a string or nothing; a missing header is a \<open>KeyError\<close>.
\<close>

definition header :: "(string \<Rightarrow> string option) \<Rightarrow> string \<Rightarrow> error + pyval" where
  "header headers k = (case headers k of None \<Rightarrow> Inl (KeyError k) | Some v \<Rightarrow> Inr (PStr v))"

definition browser_info :: "(string \<Rightarrow> string option) \<Rightarrow> string \<Rightarrow> error + pyval" where
  "browser_info headers cookie =
     (case header headers ''sec-ch-ua'' of
        Inl e \<Rightarrow> Inl e
      | Inr ua_hint \<Rightarrow>
          (case header headers ''user-agent'' of
             Inl e \<Rightarrow> Inl e
           | Inr ua \<Rightarrow>
               Inr (PDict [(''Cookie'', PStr cookie), (''Sec-Ch-Ua'', ua_hint), (''User-Agent'', ua)])))"

text \<open>Lines 117 to 145: everything before the first request.\<close>

definition payload ::
  "client \<Rightarrow> (string \<Rightarrow> string option) \<Rightarrow> string \<Rightarrow> pyval \<Rightarrow> string \<Rightarrow> error + pyval" where
  "payload self headers blob p cookie =
     (case solving_proxy self p of
        Inl e \<Rightarrow> Inl e
      | Inr sp \<Rightarrow>
          (case browser_info headers cookie of
             Inl e \<Rightarrow> Inl e
           | Inr bi \<Rightarrow>
               Inr (PDict [(''key'', PStr (api_key self)),
                           (''challengeInfo'', challenge_info blob),
                           (''browserInfo'', bi),
                           (''proxy'', sp)])))"

subsection \<open>solve_funcaptcha: the polling loop\<close>

text \<open>How one turn of the loop ends: \<open>return\<close>, an exception, or the next turn.\<close>

datatype loop_ctl = Return pyval | Raise error | Next

text \<open>Lines 166 to 169: what the loop does with a decoded status body.\<close>

definition check_solution :: "pyval \<Rightarrow> loop_ctl" where
  "check_solution solution =
     (case subscript solution ''status'' of
        Inl e \<Rightarrow> Raise e
      | Inr st \<Rightarrow>
          if st = PStr ''completed''
          then (case subscript solution ''result'' of
                  Inl e \<Rightarrow> Raise e
                | Inr res \<Rightarrow>
                    (case subscript res ''solution'' of
                       Inl e \<Rightarrow> Raise e
                     | Inr sol \<Rightarrow> Return sol))
          else (case subscript solution ''status'' of
                  Inl e \<Rightarrow> Raise e
                | Inr st' \<Rightarrow> if st' = PStr ''failed'' then Return PNone else Next))"

text \<open>The status request of a task.\<close>

definition poll_request :: "pyval \<Rightarrow> request" where
  "poll_request task_id = GET (TaskResultUrl task_id) [] PNone"

text \<open>Lines 161 to 169: what an outcome of the status request does to the loop.\<close>

fun poll_ctl :: "outcome \<Rightarrow> loop_ctl" where
  "poll_ctl (Body solution) = check_solution solution"
| "poll_ctl (ClientErr m) = Raise (ClientError m)"
| "poll_ctl (OtherErr m) = Raise (OtherError m)"

text \<open>
  Lines 158 to 171: \<open>for _ in range(max_retries)\<close> with the turns that are left, and
  the \<open>return None\<close> after the loop.
\<close>

fun poll_loop ::
  "'s transport \<Rightarrow> 'd \<Rightarrow> pyval \<Rightarrow> nat \<Rightarrow> 's \<Rightarrow> (error + pyval) \<times> 'd event list \<times> 's" where
  "poll_loop send retry_delay task_id 0 s = (Inr PNone, [], s)"
| "poll_loop send retry_delay task_id (Suc n) s =
     (let r = poll_request task_id;
          (out, s') = send s r
      in case poll_ctl out of
           Return v \<Rightarrow> (Inr v, [Sleep retry_delay, Req r], s')
         | Raise e \<Rightarrow> (Inl e, [Sleep retry_delay, Req r], s')
         | Next \<Rightarrow>
             (let (res, evs, s'') = poll_loop send retry_delay task_id n s'
              in (res, Sleep retry_delay # Req r # evs, s'')))"

subsection \<open>solve_funcaptcha\<close>

text \<open>
  The whole call: the result (a solution, \<open>None\<close>, or an exception), the requests and
  sleeps in order, and the transport's next state. \<open>range(max_retries)\<close> is empty for a
  negative number.
\<close>

definition solve_funcaptcha ::
  "'s transport \<Rightarrow> client \<Rightarrow> (string \<Rightarrow> string option) \<Rightarrow> string \<Rightarrow> pyval \<Rightarrow> string \<Rightarrow> int \<Rightarrow> 'd \<Rightarrow> 's
     \<Rightarrow> (error + pyval) \<times> 'd event list \<times> 's" where
  "solve_funcaptcha send self headers blob p cookie max_retries retry_delay s =
     (case payload self headers blob p cookie of
        Inl e \<Rightarrow> (Inl e, [], s)
      | Inr pl \<Rightarrow>
          (let r = POST CreateTaskUrl pl in
           case send s r of
             (ClientErr m, s') \<Rightarrow> (Inl (ClientError m), [Req r], s')
           | (OtherErr m, s') \<Rightarrow> (Inl (OtherError m), [Req r], s')
           | (Body data, s') \<Rightarrow>
               (case py_in ''error'' data of
                  Inl e \<Rightarrow> (Inl e, [Req r], s')
                | Inr True \<Rightarrow>
                    (case subscript data ''error'' of
                       Inl e \<Rightarrow> (Inl e, [Req r], s')
                     | Inr m \<Rightarrow> (Inl (TaskError m), [Req r], s'))
                | Inr False \<Rightarrow>
                    (case subscript data ''taskId'' of
                       Inl e \<Rightarrow> (Inl e, [Req r], s')
                     | Inr task_id \<Rightarrow>
                         (let (res, evs, s'') =
                                poll_loop send retry_delay task_id (nat max_retries) s'
                          in (res, Req r # evs, s''))))))"

section \<open>Vocabulary of the properties\<close>

text \<open>
  The state after \<open>k\<close> sendings of one request, and the outcome of sending it once more:
  the \<open>k\<close>-th response (from 0) that the polling loop can see.
\<close>

fun after_polls :: "'s transport \<Rightarrow> request \<Rightarrow> 's \<Rightarrow> nat \<Rightarrow> 's" where
  "after_polls send r s 0 = s"
| "after_polls send r s (Suc k) = after_polls send r (snd (send s r)) k"

definition nth_outcome :: "'s transport \<Rightarrow> request \<Rightarrow> 's \<Rightarrow> nat \<Rightarrow> outcome" where
  "nth_outcome send r s k = fst (send (after_polls send r s k) r)"

text \<open>The \<open>status\<close> field of a response, when the response is a body that has one.\<close>

definition status_of :: "outcome \<Rightarrow> pyval option" where
  "status_of out =
     (case out of
        Body b \<Rightarrow> (case subscript b ''status'' of Inl e \<Rightarrow> None | Inr st \<Rightarrow> Some st)
      | ClientErr m \<Rightarrow> None
      | OtherErr m \<Rightarrow> None)"

text \<open>A response whose status is neither \<open>completed\<close> nor \<open>failed\<close>.\<close>

definition pending :: "outcome \<Rightarrow> bool" where
  "pending out =
     (case status_of out of
        None \<Rightarrow> False
      | Some st \<Rightarrow> st \<noteq> PStr ''completed'' \<and> st \<noteq> PStr ''failed'')"

text \<open>Status requests and sleeps among the events of a call.\<close>

fun is_poll :: "'d event \<Rightarrow> bool" where
  "is_poll (Req (GET (TaskResultUrl t) ps px)) = True"
| "is_poll e = False"

fun is_sleep :: "'d event \<Rightarrow> bool" where
  "is_sleep (Sleep d) = True"
| "is_sleep e = False"

definition polls :: "'d event list \<Rightarrow> nat" where
  "polls evs = length (filter is_poll evs)"

definition delays :: "'d event list \<Rightarrow> nat" where
  "delays evs = length (filter is_sleep evs)"

text \<open>
  Every status request among the events comes right after a sleep of \<open>d\<close>; \<open>prev\<close> is
  the event before the list, if there is one.
\<close>

fun polls_delayed :: "'d \<Rightarrow> 'd event option \<Rightarrow> 'd event list \<Rightarrow> bool" where
  "polls_delayed d prev [] = True"
| "polls_delayed d prev (e # evs) =
     ((if is_poll e then prev = Some (Sleep d) else True) \<and> polls_delayed d (Some e) evs)"

text \<open>\<open>k\<close> turns of the loop: a sleep, then the status request, \<open>k\<close> times.\<close>

definition turns :: "'d \<Rightarrow> pyval \<Rightarrow> nat \<Rightarrow> 'd event list" where
  "turns d task_id k = concat (replicate k [Sleep d, Req (poll_request task_id)])"

text \<open>
  A stub transport that plays a script: each request takes the next outcome of the list,
  whatever the request is; past the end of the script every request fails.
\<close>

fun scripted :: "outcome list transport" where
  "scripted [] r = (OtherErr ''script exhausted'', [])"
| "scripted (x # xs) r = (x, xs)"

text \<open>
  A stub transport without a state: one outcome for every \<open>POST\<close>, one for every
  \<open>GET\<close>.
\<close>

fun steady :: "outcome \<Rightarrow> outcome \<Rightarrow> unit transport" where
  "steady post_out get_out s (POST u pl) = (post_out, ())"
| "steady post_out get_out s (GET u ps px) = (get_out, ())"

text \<open>The \<open>proxy\<close> entry of the payload that a call sends.\<close>

definition payload_proxy ::
  "client \<Rightarrow> (string \<Rightarrow> string option) \<Rightarrow> string \<Rightarrow> pyval \<Rightarrow> string \<Rightarrow> error + pyval" where
  "payload_proxy self headers blob p cookie =
     (case payload self headers blob p cookie of
        Inl e \<Rightarrow> Inl e
      | Inr pl \<Rightarrow> subscript pl ''proxy'')"



text \<open>
  The bodies the service documents: \<open>{taskId}\<close> for a created task, and \<open>{status}\<close>
  with a \<open>result.solution\<close> when the status is \<open>completed\<close>.
\<close>

definition task_created :: "string \<Rightarrow> pyval" where
  "task_created t = PDict [(''taskId'', PStr t)]"

definition processing :: pyval where
  "processing = PDict [(''status'', PStr ''processing'')]"

definition completed :: "string \<Rightarrow> pyval" where
  "completed sol =
     PDict [(''status'', PStr ''completed''), (''result'', PDict [(''solution'', PStr sol)])]"

definition failed :: pyval where
  "failed = PDict [(''status'', PStr ''failed'')]"

text \<open>A client without a proxy, a browsing session with both headers, and their payload.\<close>

definition stub_client :: client where
  "stub_client = \<lparr>api_key = ''key'', proxy = PNone\<rparr>"

definition stub_headers :: "string \<Rightarrow> string option" where
  "stub_headers = map_of [(''sec-ch-ua'', ''hint''), (''user-agent'', ''agent'')]"

definition stub_payload :: pyval where
  "stub_payload =
     PDict [(''key'', PStr ''key''),
            (''challengeInfo'', challenge_info ''blob''),
            (''browserInfo'',
               PDict [(''Cookie'', PStr ''cookie''), (''Sec-Ch-Ua'', PStr ''hint''),
                      (''User-Agent'', PStr ''agent'')]),
            (''proxy'', PNone)]"

section \<open>The polling loop, turn by turn\<close>

text \<open>One turn of the loop, by what the status request gives.\<close>

lemma poll_loop_Next:
  "poll_ctl (fst (send s (poll_request tid))) = Next \<Longrightarrow>
   poll_loop send d tid (Suc n) s =
     (let (res, evs, s'') = poll_loop send d tid n (snd (send s (poll_request tid)))
      in (res, Sleep d # Req (poll_request tid) # evs, s''))"
  by (cases "send s (poll_request tid)") (simp add: Let_def)

lemma poll_loop_Return:
  "poll_ctl (fst (send s (poll_request tid))) = Return v \<Longrightarrow>
   poll_loop send d tid (Suc n) s =
     (Inr v, [Sleep d, Req (poll_request tid)], snd (send s (poll_request tid)))"
  by (cases "send s (poll_request tid)") (simp add: Let_def)


lemma turns_Suc: "turns d tid (Suc k) = Sleep d # Req (poll_request tid) # turns d tid k"
  by (simp add: turns_def)

lemma turns_0: "turns d tid 0 = []"
  by (simp add: turns_def)

lemma nth_outcome_0: "nth_outcome send r s 0 = fst (send s r)"
  by (simp add: nth_outcome_def)

lemma nth_outcome_Suc: "nth_outcome send r s (Suc k) = nth_outcome send r (snd (send s r)) k"
  by (simp add: nth_outcome_def)

lemma poll_loop_skip:
  "(\<And>i. i < k \<Longrightarrow> poll_ctl (nth_outcome send (poll_request tid) s i) = Next) \<Longrightarrow>
   poll_loop send d tid (k + n) s =
     (let (res, evs, s'') = poll_loop send d tid n (after_polls send (poll_request tid) s k)
      in (res, turns d tid k @ evs, s''))"
proof (induction k arbitrary: s)
  case 0
  show ?case by (simp add: turns_0 split: prod.splits)
next
  case (Suc k)
  have first: "poll_ctl (fst (send s (poll_request tid))) = Next"
    using Suc.prems [of 0] by (simp add: nth_outcome_0)
  have rest: "\<And>i. i < k \<Longrightarrow>
      poll_ctl (nth_outcome send (poll_request tid) (snd (send s (poll_request tid))) i) = Next"
    using Suc.prems [of "Suc i" for i] by (simp add: nth_outcome_Suc)
  have "poll_loop send d tid (Suc (k + n)) s =
     (let (res, evs, s'') = poll_loop send d tid (k + n) (snd (send s (poll_request tid)))
      in (res, Sleep d # Req (poll_request tid) # evs, s''))"
    using first by (rule poll_loop_Next)
  then show ?case
    using Suc.IH [OF rest] by (simp add: turns_Suc split: prod.splits)
qed

lemma after_polls_Suc_end:
  "after_polls send r s (Suc k) = snd (send (after_polls send r s k) r)"
  by (induction k arbitrary: s) simp_all

lemma pending_Next: "pending out \<Longrightarrow> poll_ctl out = Next"
  by (cases out)
     (auto simp: pending_def status_of_def check_solution_def split: sum.splits option.splits)

lemma failed_Return:
  "status_of out = Some (PStr ''failed'') \<Longrightarrow> poll_ctl out = Return PNone"
  by (cases out) (auto simp: status_of_def check_solution_def split: sum.splits)

lemma completed_Return:
  "subscript b ''status'' = Inr (PStr ''completed'') \<Longrightarrow> subscript b ''result'' = Inr res \<Longrightarrow>
   subscript res ''solution'' = Inr sol \<Longrightarrow> poll_ctl (Body b) = Return sol"
  by (simp add: check_solution_def)

lemma turns_snoc:
  "turns d tid k @ [Sleep d, Req (poll_request tid)] = turns d tid (Suc k)"
  by (induction k) (simp_all add: turns_0 turns_Suc)

lemma poll_loop_stop_Return:
  assumes "\<And>i. i < k \<Longrightarrow> poll_ctl (nth_outcome send (poll_request tid) s i) = Next"
    and "poll_ctl (nth_outcome send (poll_request tid) s k) = Return v"
    and "k < n"
  shows "poll_loop send d tid n s =
           (Inr v, turns d tid (Suc k), after_polls send (poll_request tid) s (Suc k))"
proof -
  define m where "m = n - Suc k"
  have n: "n = k + Suc m"
    using assms(3) by (simp add: m_def)
  have last: "poll_ctl (fst (send (after_polls send (poll_request tid) s k) (poll_request tid))) = Return v"
    using assms(2) by (simp only: nth_outcome_def)
  have one: "poll_loop send d tid (Suc m) (after_polls send (poll_request tid) s k) =
          (Inr v, [Sleep d, Req (poll_request tid)],
           snd (send (after_polls send (poll_request tid) s k) (poll_request tid)))"
    using last by (rule poll_loop_Return)
  have "poll_loop send d tid (k + Suc m) s =
          (Inr v, turns d tid k @ [Sleep d, Req (poll_request tid)],
           snd (send (after_polls send (poll_request tid) s k) (poll_request tid)))"
    using poll_loop_skip [of k send tid s d "Suc m", OF assms(1)] by (simp only: one Let_def prod.case)
  then show ?thesis
    by (simp only: n turns_snoc after_polls_Suc_end)
qed


lemma poll_loop_exhaust:
  assumes "\<And>i. i < n \<Longrightarrow> poll_ctl (nth_outcome send (poll_request tid) s i) = Next"
  shows "poll_loop send d tid n s =
           (Inr PNone, turns d tid n, after_polls send (poll_request tid) s n)"
  using poll_loop_skip [of n send tid s d 0, OF assms] by (simp add: Let_def)

lemma poll_loop_shape:
  "\<exists>k\<le>n. fst (snd (poll_loop send d tid n s)) = turns d tid k"
proof (induction n arbitrary: s)
  case 0
  show ?case by (simp add: turns_0)
next
  case (Suc n)
  obtain out s' where snd: "send s (poll_request tid) = (out, s')"
    by (cases "send s (poll_request tid)")
  show ?case
  proof (cases "poll_ctl out")
    case (Return v)
    then have "fst (snd (poll_loop send d tid (Suc n) s)) = turns d tid (Suc 0)"
      using snd by (simp add: turns_def)
    then show ?thesis by (intro exI [of _ "Suc 0"]) simp
  next
    case (Raise e)
    then have "fst (snd (poll_loop send d tid (Suc n) s)) = turns d tid (Suc 0)"
      using snd by (simp add: turns_def)
    then show ?thesis by (intro exI [of _ "Suc 0"]) simp
  next
    case Next
    obtain res evs s'' where pl: "poll_loop send d tid n s' = (res, evs, s'')"
      by (cases "poll_loop send d tid n s'")
    obtain k where k: "k \<le> n" "evs = turns d tid k"
      using Suc.IH [of s'] pl by auto
    have "fst (snd (poll_loop send d tid (Suc n) s)) = turns d tid (Suc k)"
      using snd Next pl k(2) by (simp add: turns_Suc)
    then show ?thesis using k(1) by (intro exI [of _ "Suc k"]) simp
  qed
qed

lemma polls_turns: "polls (turns d tid k) = k"
  by (induction k) (simp_all add: turns_0 turns_Suc polls_def poll_request_def)

lemma delays_turns: "delays (turns d tid k) = k"
  by (induction k) (simp_all add: turns_0 turns_Suc delays_def)

lemma polls_delayed_turns: "polls_delayed d prev (turns d tid k)"
  by (induction k arbitrary: prev) (simp_all add: turns_0 turns_Suc)

section \<open>The whole call, from the loop\<close>

lemma solve_funcaptcha_polling:
  assumes "payload self headers blob p cookie = Inr pl"
    and "send s (POST CreateTaskUrl pl) = (Body data, s1)"
    and "py_in ''error'' data = Inr False"
    and "subscript data ''taskId'' = Inr tid"
  shows "solve_funcaptcha send self headers blob p cookie max_retries d s =
     (let (res, evs, s'') = poll_loop send d tid (nat max_retries) s1
      in (res, Req (POST CreateTaskUrl pl) # evs, s''))"
  using assms by (simp add: solve_funcaptcha_def Let_def)

lemma solve_funcaptcha_events:
  "fst (snd (solve_funcaptcha send self headers blob p cookie max_retries d s)) = [] \<or>
   (\<exists>pl tid k. k \<le> nat max_retries \<and>
      fst (snd (solve_funcaptcha send self headers blob p cookie max_retries d s)) =
        Req (POST CreateTaskUrl pl) # turns d tid k)"
proof (cases "payload self headers blob p cookie")
  case (Inl e)
  then show ?thesis by (simp add: solve_funcaptcha_def)
next
  case (Inr pl)
  obtain out s1 where snd: "send s (POST CreateTaskUrl pl) = (out, s1)"
    by (cases "send s (POST CreateTaskUrl pl)")
  have stop: "fst (snd (solve_funcaptcha send self headers blob p cookie max_retries d s)) =
        [Req (POST CreateTaskUrl pl)] \<Longrightarrow> ?thesis"
    by (intro disjI2 exI [of _ pl] exI [of _ PNone] exI [of _ 0]) (simp add: turns_0)
  show ?thesis
  proof (cases out)
    case (ClientErr m)
    with Inr snd show ?thesis by (intro stop) (simp add: solve_funcaptcha_def)
  next
    case (OtherErr m)
    with Inr snd show ?thesis by (intro stop) (simp add: solve_funcaptcha_def)
  next
    case (Body data)
    show ?thesis
    proof (cases "py_in ''error'' data")
      case (Inl e)
      with Inr snd Body show ?thesis by (intro stop) (simp add: solve_funcaptcha_def)
    next
      case has: (Inr b)
      show ?thesis
      proof (cases b)
        case True
        with Inr snd Body has show ?thesis
          by (intro stop) (simp add: solve_funcaptcha_def Let_def split: sum.splits)
      next
        case False
        show ?thesis
        proof (cases "subscript data ''taskId''")
          case (Inl e)
          with Inr snd Body has False show ?thesis
            by (intro stop) (simp add: solve_funcaptcha_def)
        next
          case tid: (Inr tid)
          obtain k where k: "k \<le> nat max_retries"
            "fst (snd (poll_loop send d tid (nat max_retries) s1)) = turns d tid k"
            using poll_loop_shape [of "nat max_retries" send d tid s1] by blast
          have "fst (snd (solve_funcaptcha send self headers blob p cookie max_retries d s)) =
                  Req (POST CreateTaskUrl pl) # turns d tid k"
            using solve_funcaptcha_polling [OF Inr, of send s data s1 tid max_retries d]
              snd Body has False tid k(2)
            by (simp add: Let_def split: prod.splits)
          with k(1) show ?thesis by blast
        qed
      qed
    qed
  qed
qed

lemma solve_funcaptcha_polls_delayed:
  "polls_delayed d None (fst (snd (solve_funcaptcha send self headers blob p cookie max_retries d s)))"
  using solve_funcaptcha_events [of send self headers blob p cookie max_retries d s]
  by (auto simp: polls_delayed_turns)

lemma solve_funcaptcha_polls_le:
  "polls (fst (snd (solve_funcaptcha send self headers blob p cookie max_retries d s))) \<le> nat max_retries"
proof -
  have "polls (Req (POST CreateTaskUrl pl) # turns d tid k) = k" for pl tid k
    using polls_turns [of d tid k] by (simp add: polls_def)
  then show ?thesis
    using solve_funcaptcha_events [of send self headers blob p cookie max_retries d s]
    by (auto simp: polls_def)
qed

lemma polls_POST_turns: "polls (Req (POST u pl) # turns d tid k) = k"
  using polls_turns [of d tid k] by (simp add: polls_def)

lemma delays_POST_turns: "delays (Req r # turns d tid k) = k"
  using delays_turns [of d tid k] by (simp add: delays_def)

section \<open>Claims about solve_funcaptcha\<close>

text \<open>
  C1. In every call of \<open>solve_funcaptcha\<close>, each status request comes right after a
  sleep of \<open>retry_delay\<close>, the first one included. When the task is created and the
  status responses are \<open>k\<close> pending ones followed by a \<open>completed\<close> one with the nested
  solution \<open>sol\<close>, and \<open>k < max_retries\<close>, the call returns \<open>sol\<close> after exactly
  \<open>k + 1\<close> status requests and \<open>k + 1\<close> sleeps: the loop ends on the completed
  status. The sequence processing, processing, completed is \<open>k = 2\<close>.
\<close>

theorem solve_returns_completed_solution:
  "polls_delayed retry_delay None
     (fst (snd (solve_funcaptcha send self headers blob p cookie max_retries retry_delay s))) \<and>
   (payload self headers blob p cookie = Inr pl \<longrightarrow>
    send s (POST CreateTaskUrl pl) = (Body data, s1) \<longrightarrow>
    py_in ''error'' data = Inr False \<longrightarrow>
    subscript data ''taskId'' = Inr tid \<longrightarrow>
    (\<forall>i<k. pending (nth_outcome send (poll_request tid) s1 i)) \<longrightarrow>
    nth_outcome send (poll_request tid) s1 k = Body b \<longrightarrow>
    subscript b ''status'' = Inr (PStr ''completed'') \<longrightarrow>
    subscript b ''result'' = Inr res \<longrightarrow>
    subscript res ''solution'' = Inr sol \<longrightarrow>
    int k < max_retries \<longrightarrow>
    solve_funcaptcha send self headers blob p cookie max_retries retry_delay s =
      (Inr sol, Req (POST CreateTaskUrl pl) # turns retry_delay tid (Suc k),
       after_polls send (poll_request tid) s1 (Suc k)) \<and>
    polls (Req (POST CreateTaskUrl pl) # turns retry_delay tid (Suc k)) = Suc k \<and>
    delays (Req (POST CreateTaskUrl pl) # turns retry_delay tid (Suc k)) = Suc k)"
proof (intro conjI impI)
  show "polls_delayed retry_delay None
     (fst (snd (solve_funcaptcha send self headers blob p cookie max_retries retry_delay s)))"
    by (rule solve_funcaptcha_polls_delayed)
next
  assume pl: "payload self headers blob p cookie = Inr pl"
    and post: "send s (POST CreateTaskUrl pl) = (Body data, s1)"
    and noerr: "py_in ''error'' data = Inr False"
    and tid: "subscript data ''taskId'' = Inr tid"
    and before: "\<forall>i<k. pending (nth_outcome send (poll_request tid) s1 i)"
    and kth: "nth_outcome send (poll_request tid) s1 k = Body b"
    and st: "subscript b ''status'' = Inr (PStr ''completed'')"
    and res: "subscript b ''result'' = Inr res"
    and sol: "subscript res ''solution'' = Inr sol"
    and k: "int k < max_retries"
  have "poll_loop send retry_delay tid (nat max_retries) s1 =
          (Inr sol, turns retry_delay tid (Suc k), after_polls send (poll_request tid) s1 (Suc k))"
  proof (rule poll_loop_stop_Return)
    show "poll_ctl (nth_outcome send (poll_request tid) s1 i) = Next" if "i < k" for i
      using before that by (simp add: pending_Next)
    show "poll_ctl (nth_outcome send (poll_request tid) s1 k) = Return sol"
      unfolding kth using st res sol by (rule completed_Return)
    show "k < nat max_retries"
      using k by simp
  qed
  then show "solve_funcaptcha send self headers blob p cookie max_retries retry_delay s =
      (Inr sol, Req (POST CreateTaskUrl pl) # turns retry_delay tid (Suc k),
       after_polls send (poll_request tid) s1 (Suc k))"
    using solve_funcaptcha_polling [where send = send and s = s, OF pl post noerr tid, of max_retries retry_delay]
    by simp
next
  show "polls (Req (POST CreateTaskUrl pl) # turns retry_delay tid (Suc k)) = Suc k"
    by (rule polls_POST_turns)
next
  show "delays (Req (POST CreateTaskUrl pl) # turns retry_delay tid (Suc k)) = Suc k"
    by (rule delays_POST_turns)
qed

lemma stub_payload_eq: "payload stub_client stub_headers ''blob'' PNone ''cookie'' = Inr stub_payload"
  by (simp add: payload_def solving_proxy_def browser_info_def header_def stub_client_def
      stub_headers_def stub_payload_def)

theorem solve_returns_completed_solution_witness:
  "polls_delayed (1::rat) None
     (fst (snd (solve_funcaptcha scripted stub_client stub_headers ''blob'' PNone ''cookie'' 3 1
        [Body (task_created ''t1''), Body processing, Body processing, Body (completed ''S'')]))) \<and>
   payload stub_client stub_headers ''blob'' PNone ''cookie'' = Inr stub_payload \<and>
   scripted
     [Body (task_created ''t1''), Body processing, Body processing, Body (completed ''S'')]
     (POST CreateTaskUrl stub_payload) =
     (Body (task_created ''t1''), [Body processing, Body processing, Body (completed ''S'')]) \<and>
   py_in ''error'' (task_created ''t1'') = Inr False \<and>
   subscript (task_created ''t1'') ''taskId'' = Inr (PStr ''t1'') \<and>
   pending (nth_outcome scripted (poll_request (PStr ''t1''))
     [Body processing, Body processing, Body (completed ''S'')] 0) \<and>
   pending (nth_outcome scripted (poll_request (PStr ''t1''))
     [Body processing, Body processing, Body (completed ''S'')] 1) \<and>
   nth_outcome scripted (poll_request (PStr ''t1''))
     [Body processing, Body processing, Body (completed ''S'')] 2 = Body (completed ''S'') \<and>
   subscript (completed ''S'') ''status'' = Inr (PStr ''completed'') \<and>
   subscript (completed ''S'') ''result'' = Inr (PDict [(''solution'', PStr ''S'')]) \<and>
   subscript (PDict [(''solution'', PStr ''S'')]) ''solution'' = Inr (PStr ''S'') \<and>
   int 2 < 3 \<and>
   solve_funcaptcha scripted stub_client stub_headers ''blob'' PNone ''cookie'' 3 (1::rat)
     [Body (task_created ''t1''), Body processing, Body processing, Body (completed ''S'')] =
     (Inr (PStr ''S''),
      [Req (POST CreateTaskUrl stub_payload),
       Sleep 1, Req (poll_request (PStr ''t1'')),
       Sleep 1, Req (poll_request (PStr ''t1'')),
       Sleep 1, Req (poll_request (PStr ''t1''))],
      []) \<and>
   polls [Req (POST CreateTaskUrl stub_payload),
       Sleep (1::rat), Req (poll_request (PStr ''t1'')),
       Sleep 1, Req (poll_request (PStr ''t1'')),
       Sleep 1, Req (poll_request (PStr ''t1''))] = 3 \<and>
   delays [Req (POST CreateTaskUrl stub_payload),
       Sleep (1::rat), Req (poll_request (PStr ''t1'')),
       Sleep 1, Req (poll_request (PStr ''t1'')),
       Sleep 1, Req (poll_request (PStr ''t1''))] = 3"
proof -
  let ?rest = "[Body processing, Body processing, Body (completed ''S'')]"
  let ?script = "Body (task_created ''t1'') # ?rest"
  let ?r = "poll_request (PStr ''t1'')"
  have h1: "payload stub_client stub_headers ''blob'' PNone ''cookie'' = Inr stub_payload"
    by (rule stub_payload_eq)
  have h2: "scripted ?script (POST CreateTaskUrl stub_payload) = (Body (task_created ''t1''), ?rest)"
    by simp
  have h3: "py_in ''error'' (task_created ''t1'') = Inr False"
    by (simp add: task_created_def)
  have h4: "subscript (task_created ''t1'') ''taskId'' = Inr (PStr ''t1'')"
    by (simp add: task_created_def)
  have p0: "pending (nth_outcome scripted ?r ?rest 0)"
    by (simp add: nth_outcome_def pending_def status_of_def processing_def)
  have p1: "pending (nth_outcome scripted ?r ?rest (Suc 0))"
    by (simp add: nth_outcome_def pending_def status_of_def processing_def)
  have h5: "\<forall>i<Suc (Suc 0). pending (nth_outcome scripted ?r ?rest i)"
    using p0 p1 by (simp add: All_less_Suc)
  have h6: "nth_outcome scripted ?r ?rest (Suc (Suc 0)) = Body (completed ''S'')"
    by (simp add: nth_outcome_def)
  have h7: "subscript (completed ''S'') ''status'' = Inr (PStr ''completed'')"
    by (simp add: completed_def)
  have h8: "subscript (completed ''S'') ''result'' = Inr (PDict [(''solution'', PStr ''S'')])"
    by (simp add: completed_def)
  have h9: "subscript (PDict [(''solution'', PStr ''S'')]) ''solution'' = Inr (PStr ''S'')"
    by simp
  have h10: "int (Suc (Suc 0)) < 3"
    by simp
  note w = solve_returns_completed_solution [where send = scripted and self = stub_client
      and headers = stub_headers and blob = "''blob''" and p = PNone and cookie = "''cookie''"
      and max_retries = 3 and retry_delay = "1::rat" and s = ?script and pl = stub_payload
      and data = "task_created ''t1''" and ?s1.0 = ?rest and tid = "PStr ''t1''"
      and k = "Suc (Suc 0)" and b = "completed ''S''" and res = "PDict [(''solution'', PStr ''S'')]"
      and sol = "PStr ''S''"]
  have a: "polls_delayed (1::rat) None
     (fst (snd (solve_funcaptcha scripted stub_client stub_headers ''blob'' PNone ''cookie'' 3 1 ?script)))"
    using w by (rule conjunct1)
  have c: "solve_funcaptcha scripted stub_client stub_headers ''blob'' PNone ''cookie'' 3 (1::rat) ?script =
      (Inr (PStr ''S''), Req (POST CreateTaskUrl stub_payload) # turns 1 (PStr ''t1'') (Suc (Suc (Suc 0))),
       after_polls scripted ?r ?rest (Suc (Suc (Suc 0))))"
    using w h1 h2 h3 h4 h5 h6 h7 h8 h9 h10 by blast
  have t: "turns (1::rat) (PStr ''t1'') (Suc (Suc (Suc 0))) =
      [Sleep 1, Req ?r, Sleep 1, Req ?r, Sleep 1, Req ?r]"
    by (simp add: turns_def)
  have e: "after_polls scripted ?r ?rest (Suc (Suc (Suc 0))) = []"
    by simp
  have n1: "pending (nth_outcome scripted ?r ?rest 1)"
    using p1 by simp
  have n2: "nth_outcome scripted ?r ?rest 2 = Body (completed ''S'')"
    using h6 by (simp add: numeral_2_eq_2)
  have cnt: "polls [Req (POST CreateTaskUrl stub_payload), Sleep (1::rat), Req ?r, Sleep 1, Req ?r,
       Sleep 1, Req ?r] = 3"
    "delays [Req (POST CreateTaskUrl stub_payload), Sleep (1::rat), Req ?r, Sleep 1, Req ?r,
       Sleep 1, Req ?r] = 3"
    by (simp_all add: polls_def delays_def poll_request_def)
  show ?thesis
    using a c [unfolded t e] h1 h2 h3 h4 p0 n1 n2 h7 h8 h9 cnt by simp
qed

text \<open>
  C2. The loop makes at most \<open>max_retries\<close> status requests, and the call returns a
  value for every input: \<open>poll_loop\<close> is a total function, by recursion on the turns
  that are left. When the task is created and each of the \<open>max_retries\<close> status
  responses is pending (a status other than \<open>completed\<close> and \<open>failed\<close>), the call makes
  exactly \<open>max_retries\<close> status requests and returns \<open>None\<close>, not an exception.
  (\<open>nat max_retries\<close> is \<open>max_retries\<close> when that is not negative.)
\<close>

theorem solve_polls_bounded_and_exhaustion:
  "polls (fst (snd (solve_funcaptcha send self headers blob p cookie max_retries retry_delay s)))
     \<le> nat max_retries \<and>
   (payload self headers blob p cookie = Inr pl \<longrightarrow>
    send s (POST CreateTaskUrl pl) = (Body data, s1) \<longrightarrow>
    py_in ''error'' data = Inr False \<longrightarrow>
    subscript data ''taskId'' = Inr tid \<longrightarrow>
    (\<forall>i<nat max_retries. pending (nth_outcome send (poll_request tid) s1 i)) \<longrightarrow>
    solve_funcaptcha send self headers blob p cookie max_retries retry_delay s =
      (Inr PNone, Req (POST CreateTaskUrl pl) # turns retry_delay tid (nat max_retries),
       after_polls send (poll_request tid) s1 (nat max_retries)) \<and>
    polls (Req (POST CreateTaskUrl pl) # turns retry_delay tid (nat max_retries)) =
      nat max_retries)"
proof (intro conjI impI)
  show "polls (fst (snd (solve_funcaptcha send self headers blob p cookie max_retries retry_delay s)))
     \<le> nat max_retries"
    by (rule solve_funcaptcha_polls_le)
next
  assume pl: "payload self headers blob p cookie = Inr pl"
    and post: "send s (POST CreateTaskUrl pl) = (Body data, s1)"
    and noerr: "py_in ''error'' data = Inr False"
    and tid: "subscript data ''taskId'' = Inr tid"
    and all: "\<forall>i<nat max_retries. pending (nth_outcome send (poll_request tid) s1 i)"
  have "poll_loop send retry_delay tid (nat max_retries) s1 =
          (Inr PNone, turns retry_delay tid (nat max_retries),
           after_polls send (poll_request tid) s1 (nat max_retries))"
  proof (rule poll_loop_exhaust)
    show "poll_ctl (nth_outcome send (poll_request tid) s1 i) = Next" if "i < nat max_retries" for i
      using all that by (simp add: pending_Next)
  qed
  then show "solve_funcaptcha send self headers blob p cookie max_retries retry_delay s =
      (Inr PNone, Req (POST CreateTaskUrl pl) # turns retry_delay tid (nat max_retries),
       after_polls send (poll_request tid) s1 (nat max_retries))"
    using solve_funcaptcha_polling [where send = send and s = s, OF pl post noerr tid,
        of max_retries retry_delay]
    by simp
next
  show "polls (Req (POST CreateTaskUrl pl) # turns retry_delay tid (nat max_retries)) =
      nat max_retries"
    by (rule polls_POST_turns)
qed

theorem solve_polls_bounded_and_exhaustion_witness:
  "polls (fst (snd (solve_funcaptcha (steady (Body (task_created ''t1'')) (Body processing))
       stub_client stub_headers ''blob'' PNone ''cookie'' 2 (1::rat) ()))) \<le> 2 \<and>
   payload stub_client stub_headers ''blob'' PNone ''cookie'' = Inr stub_payload \<and>
   steady (Body (task_created ''t1'')) (Body processing) () (POST CreateTaskUrl stub_payload) =
     (Body (task_created ''t1''), ()) \<and>
   py_in ''error'' (task_created ''t1'') = Inr False \<and>
   subscript (task_created ''t1'') ''taskId'' = Inr (PStr ''t1'') \<and>
   pending (nth_outcome (steady (Body (task_created ''t1'')) (Body processing))
     (poll_request (PStr ''t1'')) () 0) \<and>
   pending (nth_outcome (steady (Body (task_created ''t1'')) (Body processing))
     (poll_request (PStr ''t1'')) () 1) \<and>
   solve_funcaptcha (steady (Body (task_created ''t1'')) (Body processing))
       stub_client stub_headers ''blob'' PNone ''cookie'' 2 (1::rat) () =
     (Inr PNone,
      [Req (POST CreateTaskUrl stub_payload),
       Sleep 1, Req (poll_request (PStr ''t1'')),
       Sleep 1, Req (poll_request (PStr ''t1''))],
      ()) \<and>
   polls [Req (POST CreateTaskUrl stub_payload),
       Sleep (1::rat), Req (poll_request (PStr ''t1'')),
       Sleep 1, Req (poll_request (PStr ''t1''))] = 2"
proof -
  let ?send = "steady (Body (task_created ''t1'')) (Body processing)"
  let ?r = "poll_request (PStr ''t1'')"
  have h1: "payload stub_client stub_headers ''blob'' PNone ''cookie'' = Inr stub_payload"
    by (rule stub_payload_eq)
  have h2: "?send () (POST CreateTaskUrl stub_payload) = (Body (task_created ''t1''), ())"
    by simp
  have h3: "py_in ''error'' (task_created ''t1'') = Inr False"
    by (simp add: task_created_def)
  have h4: "subscript (task_created ''t1'') ''taskId'' = Inr (PStr ''t1'')"
    by (simp add: task_created_def)
  have p: "pending (nth_outcome ?send ?r () i)" for i
    by (simp add: nth_outcome_def poll_request_def pending_def status_of_def processing_def)
  have h5: "\<forall>i<nat 2. pending (nth_outcome ?send ?r () i)"
    using p by simp
  note w = solve_polls_bounded_and_exhaustion [where send = ?send and self = stub_client
      and headers = stub_headers and blob = "''blob''" and p = PNone and cookie = "''cookie''"
      and max_retries = 2 and retry_delay = "1::rat" and s = "()" and pl = stub_payload
      and data = "task_created ''t1''" and ?s1.0 = "()" and tid = "PStr ''t1''"]
  have a: "polls (fst (snd (solve_funcaptcha ?send stub_client stub_headers ''blob'' PNone
        ''cookie'' 2 (1::rat) ()))) \<le> 2"
    using w by simp
  have c: "solve_funcaptcha ?send stub_client stub_headers ''blob'' PNone ''cookie'' 2 (1::rat) () =
      (Inr PNone, Req (POST CreateTaskUrl stub_payload) # turns 1 (PStr ''t1'') (nat 2),
       after_polls ?send ?r () (nat 2))"
    using w h1 h2 h3 h4 h5 by blast
  have t: "turns (1::rat) (PStr ''t1'') (nat 2) = [Sleep 1, Req ?r, Sleep 1, Req ?r]"
    by (simp add: turns_def numeral_2_eq_2)
  have cnt: "polls [Req (POST CreateTaskUrl stub_payload), Sleep (1::rat), Req ?r, Sleep 1, Req ?r] = 2"
    by (simp add: polls_def poll_request_def)
  show ?thesis
    using a c [unfolded t] h1 h2 h3 h4 p [of 0] p [of 1] cnt by simp
qed

text \<open>
  C5. The first status response whose status is \<open>failed\<close> ends the call with
  \<open>None\<close>, a result and not an exception: after \<open>k\<close> pending responses and a
  \<open>failed\<close> one, with \<open>k < max_retries\<close>, the call has made exactly \<open>k + 1\<close>
  status requests. The sequence processing, failed is \<open>k = 1\<close>: two requests.
\<close>

theorem solve_failed_returns_none:
  "payload self headers blob p cookie = Inr pl \<longrightarrow>
   send s (POST CreateTaskUrl pl) = (Body data, s1) \<longrightarrow>
   py_in ''error'' data = Inr False \<longrightarrow>
   subscript data ''taskId'' = Inr tid \<longrightarrow>
   (\<forall>i<k. pending (nth_outcome send (poll_request tid) s1 i)) \<longrightarrow>
   status_of (nth_outcome send (poll_request tid) s1 k) = Some (PStr ''failed'') \<longrightarrow>
   int k < max_retries \<longrightarrow>
   solve_funcaptcha send self headers blob p cookie max_retries retry_delay s =
     (Inr PNone, Req (POST CreateTaskUrl pl) # turns retry_delay tid (Suc k),
      after_polls send (poll_request tid) s1 (Suc k)) \<and>
   polls (Req (POST CreateTaskUrl pl) # turns retry_delay tid (Suc k)) = Suc k"
proof (intro conjI impI)
  assume pl: "payload self headers blob p cookie = Inr pl"
    and post: "send s (POST CreateTaskUrl pl) = (Body data, s1)"
    and noerr: "py_in ''error'' data = Inr False"
    and tid: "subscript data ''taskId'' = Inr tid"
    and before: "\<forall>i<k. pending (nth_outcome send (poll_request tid) s1 i)"
    and kth: "status_of (nth_outcome send (poll_request tid) s1 k) = Some (PStr ''failed'')"
    and k: "int k < max_retries"
  have "poll_loop send retry_delay tid (nat max_retries) s1 =
          (Inr PNone, turns retry_delay tid (Suc k), after_polls send (poll_request tid) s1 (Suc k))"
  proof (rule poll_loop_stop_Return)
    show "poll_ctl (nth_outcome send (poll_request tid) s1 i) = Next" if "i < k" for i
      using before that by (simp add: pending_Next)
    show "poll_ctl (nth_outcome send (poll_request tid) s1 k) = Return PNone"
      using kth by (rule failed_Return)
    show "k < nat max_retries"
      using k by simp
  qed
  then show "solve_funcaptcha send self headers blob p cookie max_retries retry_delay s =
     (Inr PNone, Req (POST CreateTaskUrl pl) # turns retry_delay tid (Suc k),
      after_polls send (poll_request tid) s1 (Suc k))"
    using solve_funcaptcha_polling [where send = send and s = s, OF pl post noerr tid,
        of max_retries retry_delay]
    by simp
next
  show "polls (Req (POST CreateTaskUrl pl) # turns retry_delay tid (Suc k)) = Suc k"
    by (rule polls_POST_turns)
qed

theorem solve_failed_returns_none_witness:
  "payload stub_client stub_headers ''blob'' PNone ''cookie'' = Inr stub_payload \<and>
   scripted [Body (task_created ''t1''), Body processing, Body failed, Body (completed ''S'')]
     (POST CreateTaskUrl stub_payload) =
     (Body (task_created ''t1''), [Body processing, Body failed, Body (completed ''S'')]) \<and>
   py_in ''error'' (task_created ''t1'') = Inr False \<and>
   subscript (task_created ''t1'') ''taskId'' = Inr (PStr ''t1'') \<and>
   pending (nth_outcome scripted (poll_request (PStr ''t1''))
     [Body processing, Body failed, Body (completed ''S'')] 0) \<and>
   status_of (nth_outcome scripted (poll_request (PStr ''t1''))
     [Body processing, Body failed, Body (completed ''S'')] 1) = Some (PStr ''failed'') \<and>
   int 1 < 5 \<and>
   solve_funcaptcha scripted stub_client stub_headers ''blob'' PNone ''cookie'' 5 (1::rat)
     [Body (task_created ''t1''), Body processing, Body failed, Body (completed ''S'')] =
     (Inr PNone,
      [Req (POST CreateTaskUrl stub_payload),
       Sleep 1, Req (poll_request (PStr ''t1'')),
       Sleep 1, Req (poll_request (PStr ''t1''))],
      [Body (completed ''S'')]) \<and>
   polls [Req (POST CreateTaskUrl stub_payload),
       Sleep (1::rat), Req (poll_request (PStr ''t1'')),
       Sleep 1, Req (poll_request (PStr ''t1''))] = 2"
proof -
  let ?rest = "[Body processing, Body failed, Body (completed ''S'')]"
  let ?script = "Body (task_created ''t1'') # ?rest"
  let ?r = "poll_request (PStr ''t1'')"
  have h1: "payload stub_client stub_headers ''blob'' PNone ''cookie'' = Inr stub_payload"
    by (rule stub_payload_eq)
  have h2: "scripted ?script (POST CreateTaskUrl stub_payload) = (Body (task_created ''t1''), ?rest)"
    by simp
  have h3: "py_in ''error'' (task_created ''t1'') = Inr False"
    by (simp add: task_created_def)
  have h4: "subscript (task_created ''t1'') ''taskId'' = Inr (PStr ''t1'')"
    by (simp add: task_created_def)
  have p0: "pending (nth_outcome scripted ?r ?rest 0)"
    by (simp add: nth_outcome_def pending_def status_of_def processing_def)
  have h5: "\<forall>i<Suc 0. pending (nth_outcome scripted ?r ?rest i)"
    using p0 by simp
  have h6: "status_of (nth_outcome scripted ?r ?rest (Suc 0)) = Some (PStr ''failed'')"
    by (simp add: nth_outcome_def status_of_def failed_def)
  have h7: "int (Suc 0) < 5"
    by simp
  note w = solve_failed_returns_none [where send = scripted and self = stub_client
      and headers = stub_headers and blob = "''blob''" and p = PNone and cookie = "''cookie''"
      and max_retries = 5 and retry_delay = "1::rat" and s = ?script and pl = stub_payload
      and data = "task_created ''t1''" and ?s1.0 = ?rest and tid = "PStr ''t1''"
      and k = "Suc 0"]
  have c: "solve_funcaptcha scripted stub_client stub_headers ''blob'' PNone ''cookie'' 5 (1::rat) ?script =
      (Inr PNone, Req (POST CreateTaskUrl stub_payload) # turns 1 (PStr ''t1'') (Suc (Suc 0)),
       after_polls scripted ?r ?rest (Suc (Suc 0)))"
    using w h1 h2 h3 h4 h5 h6 h7 by blast
  have t: "turns (1::rat) (PStr ''t1'') (Suc (Suc 0)) = [Sleep 1, Req ?r, Sleep 1, Req ?r]"
    by (simp add: turns_def)
  have e: "after_polls scripted ?r ?rest (Suc (Suc 0)) = [Body (completed ''S'')]"
    by simp
  have n1: "status_of (nth_outcome scripted ?r ?rest 1) = Some (PStr ''failed'')"
    using h6 by simp
  have cnt: "polls [Req (POST CreateTaskUrl stub_payload), Sleep (1::rat), Req ?r, Sleep 1, Req ?r] = 2"
    by (simp add: polls_def poll_request_def)
  show ?thesis
    using c [unfolded t e] h1 h2 h3 h4 p0 n1 cnt by simp
qed

text \<open>
  C3. When the body of the task-creation response has an \<open>error\<close> field, the call
  raises \<open>TaskError\<close> with the value of that field, and the task-creation request is the
  only request it makes: no status request follows.
\<close>

theorem solve_task_error_without_polling:
  "payload self headers blob p cookie = Inr pl \<longrightarrow>
   send s (POST CreateTaskUrl pl) = (Body (PDict kvs), s1) \<longrightarrow>
   map_of kvs ''error'' = Some msg \<longrightarrow>
   solve_funcaptcha send self headers blob p cookie max_retries retry_delay s =
     (Inl (TaskError msg), [Req (POST CreateTaskUrl pl)], s1) \<and>
   polls [Req (POST CreateTaskUrl pl) :: 'd event] = 0"
  by (simp add: solve_funcaptcha_def polls_def)

theorem solve_task_error_without_polling_witness:
  "payload stub_client stub_headers ''blob'' PNone ''cookie'' = Inr stub_payload \<and>
   scripted [Body (PDict [(''error'', PStr ''no funds'')]), Body (completed ''S'')]
     (POST CreateTaskUrl stub_payload) =
     (Body (PDict [(''error'', PStr ''no funds'')]), [Body (completed ''S'')]) \<and>
   map_of [(''error'', PStr ''no funds'')] ''error'' = Some (PStr ''no funds'') \<and>
   solve_funcaptcha scripted stub_client stub_headers ''blob'' PNone ''cookie'' 60 (1::rat)
     [Body (PDict [(''error'', PStr ''no funds'')]), Body (completed ''S'')] =
     (Inl (TaskError (PStr ''no funds'')), [Req (POST CreateTaskUrl stub_payload)],
      [Body (completed ''S'')]) \<and>
   polls [Req (POST CreateTaskUrl stub_payload) :: rat event] = 0"
  using solve_task_error_without_polling [where send = scripted and self = stub_client
      and headers = stub_headers and blob = "''blob''" and p = PNone and cookie = "''cookie''"
      and max_retries = 60 and retry_delay = "1::rat" and pl = stub_payload
      and s = "[Body (PDict [(''error'', PStr ''no funds'')]), Body (completed ''S'')]"
      and kvs = "[(''error'', PStr ''no funds'')]" and ?s1.0 = "[Body (completed ''S'')]"
      and msg = "PStr ''no funds''"]
    stub_payload_eq
  by simp






text \<open>
  C4 does not hold of the code. \<open>solve_funcaptcha\<close> has no \<open>except\<close> clause: a
  transport failure in the task-creation request or in a status request leaves the
  call as the \<open>aiohttp.ClientError\<close> it is, while \<open>get_balance\<close> wraps the same
  failure in a \<open>RoSolveException\<close> whose message starts with \<open>Connection error: \<close>.
  What does hold is that no request follows the failing one: the status response that
  the script still holds is never asked for.
\<close>

theorem solve_transport_failure_not_wrapped:
  "solve_funcaptcha scripted stub_client stub_headers ''blob'' PNone ''cookie'' 3 (1::rat)
     [ClientErr ''reset'', Body processing] =
     (Inl (ClientError ''reset''), [Req (POST CreateTaskUrl stub_payload)], [Body processing]) \<and>
   solve_funcaptcha scripted stub_client stub_headers ''blob'' PNone ''cookie'' 3 (1::rat)
     [Body (task_created ''t1''), Body processing, ClientErr ''reset'', Body (completed ''S'')] =
     (Inl (ClientError ''reset''),
      [Req (POST CreateTaskUrl stub_payload),
       Sleep 1, Req (poll_request (PStr ''t1'')),
       Sleep 1, Req (poll_request (PStr ''t1''))],
      [Body (completed ''S'')]) \<and>
   get_balance scripted stub_client [ClientErr ''reset''] =
     (Inl (RoSolveException ''Connection error: reset''),
      [GET GetBalanceUrl [(''key'', PStr ''key'')] PNone], []) \<and>
   ClientError ''reset'' \<noteq> RoSolveException ''Connection error: reset''"
proof -
  have a: "solve_funcaptcha scripted stub_client stub_headers ''blob'' PNone ''cookie'' 3 (1::rat)
     [ClientErr ''reset'', Body processing] =
     (Inl (ClientError ''reset''), [Req (POST CreateTaskUrl stub_payload)], [Body processing])"
    by (simp add: solve_funcaptcha_def stub_payload_eq)
  have b: "solve_funcaptcha scripted stub_client stub_headers ''blob'' PNone ''cookie'' 3 (1::rat)
     [Body (task_created ''t1''), Body processing, ClientErr ''reset'', Body (completed ''S'')] =
     (Inl (ClientError ''reset''),
      [Req (POST CreateTaskUrl stub_payload),
       Sleep 1, Req (poll_request (PStr ''t1'')),
       Sleep 1, Req (poll_request (PStr ''t1''))],
      [Body (completed ''S'')])"
    by (simp add: solve_funcaptcha_def stub_payload_eq task_created_def processing_def
        check_solution_def numeral_3_eq_3)
  have c: "get_balance scripted stub_client [ClientErr ''reset''] =
     (Inl (RoSolveException ''Connection error: reset''),
      [GET GetBalanceUrl [(''key'', PStr ''key'')] PNone], [])"
    by (simp add: get_balance_def stub_client_def)
  show ?thesis
    using a b c by simp
qed

section \<open>Claims about the proxy\<close>

text \<open>
  C7. \<open>_validate_proxy\<close> on a string: a string that starts with \<open>http://\<close>,
  \<open>https://\<close> or \<open>socks5://\<close> is returned as it is, and every other string raises
  \<open>ProxyError\<close>. The function takes no transport and no state: it makes no request.
\<close>

theorem validate_proxy_scheme:
  "(startswith s ''http://'' \<or> startswith s ''https://'' \<or> startswith s ''socks5://'' \<longrightarrow>
      validate_proxy (PStr s) = Inr (PStr s)) \<and>
   (\<not> (startswith s ''http://'' \<or> startswith s ''https://'' \<or> startswith s ''socks5://'') \<longrightarrow>
      validate_proxy (PStr s) =
        Inl (ProxyError ''Proxy must start with http://, https://, or socks5://''))"
  by (simp add: validate_proxy_def)

theorem validate_proxy_scheme_witness:
  "startswith ''socks5://10.0.0.1:1080'' ''socks5://'' \<and>
   validate_proxy (PStr ''socks5://10.0.0.1:1080'') = Inr (PStr ''socks5://10.0.0.1:1080'') \<and>
   \<not> (startswith ''ftp://host'' ''http://'' \<or> startswith ''ftp://host'' ''https://'' \<or>
      startswith ''ftp://host'' ''socks5://'') \<and>
   validate_proxy (PStr ''ftp://host'') =
     Inl (ProxyError ''Proxy must start with http://, https://, or socks5://'')"
  using validate_proxy_scheme [of "''socks5://10.0.0.1:1080''"]
    validate_proxy_scheme [of "''ftp://host''"]
  by (simp add: startswith_def)




lemma stub_browser_info:
  "browser_info stub_headers ''cookie'' =
     Inr (PDict [(''Cookie'', PStr ''cookie''), (''Sec-Ch-Ua'', PStr ''hint''),
                 (''User-Agent'', PStr ''agent'')])"
  by (simp add: browser_info_def header_def stub_headers_def)

text \<open>
  C6, as amended. The proxy in the payload: a per-call proxy that is a string, not
  empty, with an accepted scheme, is sent whatever the client's proxy is, and one with
  no accepted scheme raises \<open>ProxyError\<close>; with the per-call proxy \<open>None\<close> or the
  empty string, the client's proxy is sent; with the per-call proxy \<open>None\<close> and no
  proxy on the client, the payload's \<open>proxy\<close> is \<open>None\<close>.
\<close>

theorem payload_proxy_precedence:
  "(s \<noteq> [] \<longrightarrow>
    (startswith s ''http://'' \<or> startswith s ''https://'' \<or> startswith s ''socks5://'') \<longrightarrow>
    browser_info headers cookie = Inr bi \<longrightarrow>
    payload_proxy self headers blob (PStr s) cookie = Inr (PStr s)) \<and>
   (s \<noteq> [] \<longrightarrow>
    \<not> (startswith s ''http://'' \<or> startswith s ''https://'' \<or> startswith s ''socks5://'') \<longrightarrow>
    payload_proxy self headers blob (PStr s) cookie =
      Inl (ProxyError ''Proxy must start with http://, https://, or socks5://'')) \<and>
   (p = PNone \<or> p = PStr [] \<longrightarrow>
    browser_info headers cookie = Inr bi \<longrightarrow>
    payload_proxy self headers blob p cookie = Inr (proxy self)) \<and>
   (proxy self = PNone \<longrightarrow>
    browser_info headers cookie = Inr bi \<longrightarrow>
    payload_proxy self headers blob PNone cookie = Inr PNone)"
  by (auto simp: payload_proxy_def payload_def solving_proxy_def validate_proxy_def)

theorem payload_proxy_precedence_witness:
  "payload_proxy \<lparr>api_key = ''key'', proxy = PStr ''http://10.0.0.1:80''\<rparr> stub_headers ''blob''
     (PStr ''socks5://10.0.0.2:1080'') ''cookie'' = Inr (PStr ''socks5://10.0.0.2:1080'') \<and>
   payload_proxy \<lparr>api_key = ''key'', proxy = PStr ''http://10.0.0.1:80''\<rparr> stub_headers ''blob''
     (PStr ''ftp://host'') ''cookie'' =
     Inl (ProxyError ''Proxy must start with http://, https://, or socks5://'') \<and>
   payload_proxy \<lparr>api_key = ''key'', proxy = PStr ''http://10.0.0.1:80''\<rparr> stub_headers ''blob''
     PNone ''cookie'' = Inr (PStr ''http://10.0.0.1:80'') \<and>
   payload_proxy \<lparr>api_key = ''key'', proxy = PStr ''http://10.0.0.1:80''\<rparr> stub_headers ''blob''
     (PStr []) ''cookie'' = Inr (PStr ''http://10.0.0.1:80'') \<and>
   payload_proxy stub_client stub_headers ''blob'' PNone ''cookie'' = Inr PNone"
proof -
  let ?c = "\<lparr>api_key = ''key'', proxy = PStr ''http://10.0.0.1:80''\<rparr>"
  let ?bi = "PDict [(''Cookie'', PStr ''cookie''), (''Sec-Ch-Ua'', PStr ''hint''),
                 (''User-Agent'', PStr ''agent'')]"
  have a: "payload_proxy ?c stub_headers ''blob'' (PStr ''socks5://10.0.0.2:1080'') ''cookie'' =
      Inr (PStr ''socks5://10.0.0.2:1080'')"
    using payload_proxy_precedence [where s = "''socks5://10.0.0.2:1080''" and self = ?c
        and headers = stub_headers and cookie = "''cookie''" and bi = ?bi and blob = "''blob''",
        THEN conjunct1] stub_browser_info
    by (simp add: startswith_def)
  have b: "payload_proxy ?c stub_headers ''blob'' (PStr ''ftp://host'') ''cookie'' =
      Inl (ProxyError ''Proxy must start with http://, https://, or socks5://'')"
    using payload_proxy_precedence [where s = "''ftp://host''" and self = ?c
        and headers = stub_headers and cookie = "''cookie''" and blob = "''blob''",
        THEN conjunct2, THEN conjunct1]
    by (simp add: startswith_def)
  have c: "payload_proxy ?c stub_headers ''blob'' PNone ''cookie'' = Inr (PStr ''http://10.0.0.1:80'')"
    using payload_proxy_precedence [where p = PNone and self = ?c
        and headers = stub_headers and cookie = "''cookie''" and bi = ?bi and blob = "''blob''",
        THEN conjunct2, THEN conjunct2, THEN conjunct1] stub_browser_info
    by simp
  have d: "payload_proxy ?c stub_headers ''blob'' (PStr []) ''cookie'' = Inr (PStr ''http://10.0.0.1:80'')"
    using payload_proxy_precedence [where p = "PStr []" and self = ?c
        and headers = stub_headers and cookie = "''cookie''" and bi = ?bi and blob = "''blob''",
        THEN conjunct2, THEN conjunct2, THEN conjunct1] stub_browser_info
    by simp
  have e: "payload_proxy stub_client stub_headers ''blob'' PNone ''cookie'' = Inr PNone"
    using payload_proxy_precedence [where self = stub_client
        and headers = stub_headers and cookie = "''cookie''" and bi = ?bi and blob = "''blob''",
        THEN conjunct2, THEN conjunct2, THEN conjunct2] stub_browser_info
    by (simp add: stub_client_def)
  show ?thesis
    using a b c d e by simp
qed

text \<open>
  The claim as stated fails for the empty string as the per-call proxy: it is not
  \<open>None\<close> and validation would refuse it, yet \<open>if proxy\<close> is false for it and the
  client's proxy is sent.
\<close>

theorem solving_proxy_empty_counterexample:
  "PStr [] \<noteq> PNone \<and>
   validate_proxy (PStr []) =
     Inl (ProxyError ''Proxy must start with http://, https://, or socks5://'') \<and>
   payload_proxy \<lparr>api_key = ''key'', proxy = PStr ''http://10.0.0.1:80''\<rparr> stub_headers ''blob''
     (PStr []) ''cookie'' = Inr (PStr ''http://10.0.0.1:80'')"
  by (simp add: payload_proxy_def payload_def solving_proxy_def browser_info_def header_def
      stub_headers_def validate_proxy_def startswith_def)

section \<open>Claims about get_balance\<close>




end
